theory Spec2Isabelle
  imports Main
begin

section \<open>Python values\<close>

text \<open>
  The script handles values decoded from JSON response bodies and keeps some of them in a
  list. A decoded document is a value of \<open>json\<close>: \<open>None\<close>, a bool, an int, a str, a
  list or a dict (an association list with distinct keys, looked up with \<open>map_of\<close>).
  Non-integral numbers are outside the model.
\<close>

datatype json = JNull | JBool bool | JInt int | JStr string
  | JArr "json list" | JObj "(string \<times> json) list"

text \<open>Truthiness, as tested by \<^verbatim>\<open>if task_id:\<close> and \<^verbatim>\<open>if not params["status"]:\<close>.\<close>

fun py_truthy :: "json \<Rightarrow> bool" where
  "py_truthy JNull = False"
| "py_truthy (JBool b) = b"
| "py_truthy (JInt n) = (n \<noteq> 0)"
| "py_truthy (JStr s) = (s \<noteq> [])"
| "py_truthy (JArr xs) = (xs \<noteq> [])"
| "py_truthy (JObj kvs) = (kvs \<noteq> [])"

text \<open>
  Python's \<^verbatim>\<open>==\<close> on decoded values: a bool equals the int 0 or 1, lists compare
  element by element, dicts compare key by key whatever the order of the keys.
\<close>

fun py_eq :: "json \<Rightarrow> json \<Rightarrow> bool" where
  "py_eq JNull JNull = True"
| "py_eq (JBool a) (JBool b) = (a = b)"
| "py_eq (JBool a) (JInt n) = (n = (if a then 1 else 0))"
| "py_eq (JInt n) (JBool a) = (n = (if a then 1 else 0))"
| "py_eq (JInt m) (JInt n) = (m = n)"
| "py_eq (JStr s) (JStr t) = (s = t)"
| "py_eq (JArr xs) (JArr ys) = list_all2 py_eq xs ys"
| "py_eq (JObj kvs) (JObj kws) =
     (length kvs = length kws \<and>
      list_all (\<lambda>(k, v). case map_of kws k of None \<Rightarrow> False | Some w \<Rightarrow> py_eq v w) kvs)"
| "py_eq _ _ = False"

text \<open>
  \<^verbatim>\<open>x in xs\<close> and \<^verbatim>\<open>xs.remove(x)\<close> take an entry \<open>e\<close> for \<open>x\<close> when
  \<^verbatim>\<open>e is x or e == x\<close>; an object is structurally equal to itself.
\<close>

definition py_same :: "json \<Rightarrow> json \<Rightarrow> bool" where
  "py_same e x = (e = x \<or> py_eq e x)"

definition py_in :: "json \<Rightarrow> json list \<Rightarrow> bool" where
  "py_in x xs = list_ex (\<lambda>e. py_same e x) xs"

text \<open>The number of entries of \<open>xs\<close> that \<^verbatim>\<open>x in xs\<close> would take for \<open>x\<close>.\<close>

definition py_count :: "json \<Rightarrow> json list \<Rightarrow> nat" where
  "py_count x xs = length (filter (\<lambda>e. py_same e x) xs)"

datatype exn = JSONDecodeError | AttributeError | ValueError | RequestException string

datatype 'a outcome = Return 'a | Raise exn

text \<open>
  \<^verbatim>\<open>xs.remove(x)\<close> deletes the first entry taken for \<open>x\<close>; with no such entry it
  raises ValueError (the result \<open>None\<close>).
\<close>

fun py_remove :: "json \<Rightarrow> json list \<Rightarrow> json list option" where
  "py_remove x [] = None"
| "py_remove x (e # es) =
     (if py_same e x then Some es else map_option (\<lambda>r. e # r) (py_remove x es))"

text \<open>\<^verbatim>\<open>d.get(key, default)\<close>: only a dict has the method.\<close>

fun py_get :: "json \<Rightarrow> string \<Rightarrow> json \<Rightarrow> json outcome" where
  "py_get (JObj kvs) k d = Return (case map_of kvs k of None \<Rightarrow> d | Some v \<Rightarrow> v)"
| "py_get _ k d = Raise AttributeError"

text \<open>\<^verbatim>\<open>data.get("task", {}).get("id")\<close>\<close>

definition get_task_id :: "json \<Rightarrow> json outcome" where
  "get_task_id data =
     (case py_get data ''task'' (JObj []) of
        Raise e \<Rightarrow> Raise e
      | Return t \<Rightarrow> py_get t ''id'' JNull)"

section \<open>Formatted strings and random draws\<close>

text \<open>
  An f-string is kept as the list of its parts, the interpolated values unformatted.
\<close>

datatype part = Lit string | Fmt json | FmtInt int | FmtExn exn

type_synonym fstring = "part list"

text \<open>
  The draws of the \<^verbatim>\<open>random\<close> and \<^verbatim>\<open>uuid\<close> modules are inputs: \<open>uuid_hex\<close> is
  the value of \<^verbatim>\<open>uuid.uuid4().hex\<close>, \<open>draw k\<close> the entropy of the \<open>k\<close>-th call of
  \<^verbatim>\<open>random\<close> in the method. \<^verbatim>\<open>randint(a, b)\<close> returns an integer of \<open>a..b\<close>,
  \<^verbatim>\<open>choice(xs)\<close> an element of the non-empty \<open>xs\<close>.
\<close>

record rand =
  uuid_hex :: string
  draw :: "nat \<Rightarrow> nat"

definition randint :: "int \<Rightarrow> int \<Rightarrow> nat \<Rightarrow> int" where
  "randint a b r = a + int (r mod nat (b - a + 1))"

definition choice :: "'a list \<Rightarrow> nat \<Rightarrow> 'a" where
  "choice xs r = xs ! (r mod length xs)"

section \<open>HTTP client and process state\<close>

datatype http_method = GET | POST | PUT | DELETE

record request =
  req_method :: http_method
  req_path :: fstring
  req_name :: string
  req_params :: "(string \<times> json) list"
  req_json :: "(string \<times> fstring) list option"

text \<open>
  A response: its status code, its text, and its decoded body (\<open>None\<close> when the body is
  not JSON, where \<^verbatim>\<open>response.json()\<close> raises).
\<close>

record response =
  status_code :: int
  resp_text :: string
  json_body :: "json option"

definition response_json :: "response \<Rightarrow> json outcome" where
  "response_json r = (case json_body r of None \<Rightarrow> Raise JSONDecodeError | Some d \<Rightarrow> Return d)"

text \<open>What a call of the client does: it returns a response or raises an \<^verbatim>\<open>Exception\<close>.\<close>

datatype call_result = Returned response | Raised exn

text \<open>
  What the process does, in order: a call of the HTTP client by a user, a response marked
  \<^verbatim>\<open>success()\<close> or \<^verbatim>\<open>failure(msg)\<close> by a user, a line printed.
\<close>

datatype event = Call nat request | Success nat | Failure nat fstring | Print fstring

text \<open>
  \<^verbatim>\<open>task_ids = []\<close> stands in the class bodies of \<^verbatim>\<open>TaskAPIUser\<close> and
  \<^verbatim>\<open>AdminUser\<close>: one list object per class. No method assigns \<^verbatim>\<open>self.task_ids\<close>,
  so for every instance \<^verbatim>\<open>self.task_ids\<close> is the list of its class, which
  \<^verbatim>\<open>append\<close> and \<^verbatim>\<open>remove\<close> change in place.

  A method is one step from state to state: what other users do between a call of the
  client and its answer is not part of the model.
\<close>

record world =
  TaskAPIUser_task_ids :: "json list"
  AdminUser_task_ids :: "json list"
  log :: "event list"

datatype user_class = TaskAPIUser | DatabaseStressUser | ReadOnlyUser | AdminUser

record user =
  user_id :: nat
  user_class :: user_class

text \<open>\<^verbatim>\<open>self.task_ids\<close> as a user reads it; \<open>None\<close> where the class has no such attribute.\<close>

fun task_ids_of :: "world \<Rightarrow> user \<Rightarrow> json list option" where
  "task_ids_of w u =
     (case user_class u of
        TaskAPIUser \<Rightarrow> Some (TaskAPIUser_task_ids w)
      | AdminUser \<Rightarrow> Some (AdminUser_task_ids w)
      | _ \<Rightarrow> None)"

definition emit :: "event \<Rightarrow> world \<Rightarrow> world" where
  "emit e w = w\<lparr>log := log w @ [e]\<rparr>"

section \<open>TaskAPIUser\<close>

text \<open>
  \<^verbatim>\<open>on_stop\<close>: one delete call per entry of the list; an exception of a call is caught
  and printed, and the loop goes on. \<open>env i\<close> is what the \<open>i\<close>-th call does.
\<close>

definition cleanup_request :: "json \<Rightarrow> request" where
  "cleanup_request task_id =
     \<lparr>req_method = DELETE, req_path = [Lit ''/deleteTask/'', Fmt task_id],
      req_name = ''/deleteTask/[id]'', req_params = [], req_json = None\<rparr>"

definition cleanup_message :: "json \<Rightarrow> exn \<Rightarrow> fstring" where
  "cleanup_message task_id e = [Lit ''Failed to cleanup task '', Fmt task_id, Lit '': '', FmtExn e]"

fun on_stop_loop :: "nat \<Rightarrow> (nat \<Rightarrow> call_result) \<Rightarrow> nat \<Rightarrow> json list \<Rightarrow> world \<Rightarrow> unit outcome \<times> world" where
  "on_stop_loop self env i [] w = (Return (), w)"
| "on_stop_loop self env i (task_id # rest) w =
     (let w1 = emit (Call self (cleanup_request task_id)) w
      in case env i of
           Returned r \<Rightarrow> on_stop_loop self env (Suc i) rest w1
         | Raised e \<Rightarrow> on_stop_loop self env (Suc i) rest (emit (Print (cleanup_message task_id e)) w1))"

definition on_stop :: "nat \<Rightarrow> (nat \<Rightarrow> call_result) \<Rightarrow> world \<Rightarrow> unit outcome \<times> world" where
  "on_stop self env w = on_stop_loop self env 0 (TaskAPIUser_task_ids w) w"

text \<open>\<^verbatim>\<open>list_tasks\<close>\<close>

definition list_tasks_params :: "rand \<Rightarrow> (string \<times> json) list" where
  "list_tasks_params rnd =
     (let params = [(''page'', JInt (randint 1 5 (draw rnd 0))),
                    (''limit'', JInt (choice [5, 10, 20] (draw rnd 1))),
                    (''status'', JStr (choice ['''', ''pending'', ''in_progress'', ''completed''] (draw rnd 2)))]
      in case map_of params ''status'' of
           Some s \<Rightarrow> if \<not> py_truthy s then filter (\<lambda>kv. fst kv \<noteq> ''status'') params else params
         | None \<Rightarrow> params)"

definition list_tasks :: "nat \<Rightarrow> rand \<Rightarrow> call_result \<Rightarrow> world \<Rightarrow> json option outcome \<times> world" where
  "list_tasks self rnd res w =
     (let w1 = emit (Call self \<lparr>req_method = GET, req_path = [Lit ''/listTasks''],
                               req_name = ''/listTasks'', req_params = list_tasks_params rnd,
                               req_json = None\<rparr>) w
      in case res of
           Raised e \<Rightarrow> (Raise e, w1)
         | Returned r \<Rightarrow>
             if status_code r = 200 then
               (case response_json r of
                  Raise e \<Rightarrow> (Raise e, w1)
                | Return data \<Rightarrow> (Return (Some data), emit (Success self) w1))
             else (Return None, emit (Failure self [Lit ''Failed with status '', FmtInt (status_code r)]) w1))"

text \<open>\<^verbatim>\<open>create_task\<close>\<close>

definition create_task_data :: "rand \<Rightarrow> (string \<times> fstring) list" where
  "create_task_data rnd =
     [(''title'', [Lit ''Load Test Task '', Lit (take 8 (uuid_hex rnd))]),
      (''description'', [Lit ''This is a test task created by Locust stress testing at '',
                         FmtInt (randint 1000 9999 (draw rnd 0))]),
      (''priority'', [Lit (choice [''low'', ''medium'', ''high''] (draw rnd 1))])]"

definition create_task :: "nat \<Rightarrow> rand \<Rightarrow> call_result \<Rightarrow> world \<Rightarrow> json option outcome \<times> world" where
  "create_task self rnd res w =
     (let w1 = emit (Call self \<lparr>req_method = POST, req_path = [Lit ''/addTask''],
                               req_name = ''/addTask'', req_params = [],
                               req_json = Some (create_task_data rnd)\<rparr>) w
      in case res of
           Raised e \<Rightarrow> (Raise e, w1)
         | Returned r \<Rightarrow>
             if status_code r = 201 then
               (case response_json r of
                  Raise e \<Rightarrow> (Raise e, w1)
                | Return data \<Rightarrow>
                    (case get_task_id data of
                       Raise e \<Rightarrow> (Raise e, w1)
                     | Return task_id \<Rightarrow>
                         (let w2 = (if py_truthy task_id
                                    then w1\<lparr>TaskAPIUser_task_ids := TaskAPIUser_task_ids w1 @ [task_id]\<rparr>
                                    else w1)
                          in (Return (Some data), emit (Success self) w2))))
             else (Return None,
                   emit (Failure self [Lit ''Failed to create task: '', FmtInt (status_code r),
                                       Lit '' - '', Lit (resp_text r)]) w1))"

text \<open>
  The two lines \<^verbatim>\<open>if task_id in self.task_ids: self.task_ids.remove(task_id)\<close> of
  \<^verbatim>\<open>update_task\<close> and \<^verbatim>\<open>delete_task\<close>.
\<close>

definition remove_if_in :: "json \<Rightarrow> world \<Rightarrow> unit outcome \<times> world" where
  "remove_if_in task_id w =
     (if py_in task_id (TaskAPIUser_task_ids w) then
        (case py_remove task_id (TaskAPIUser_task_ids w) of
           None \<Rightarrow> (Raise ValueError, w)
         | Some ids \<Rightarrow> (Return (), w\<lparr>TaskAPIUser_task_ids := ids\<rparr>))
      else (Return (), w))"

text \<open>\<^verbatim>\<open>update_task\<close>\<close>

definition update_data :: "rand \<Rightarrow> (string \<times> fstring) list" where
  "update_data rnd =
     [(''title'', [Lit ''Updated Task '', Lit (take 6 (uuid_hex rnd))]),
      (''description'', [Lit ''Updated by Locust load test'']),
      (''status'', [Lit (choice [''pending'', ''in_progress'', ''completed''] (draw rnd 1))]),
      (''priority'', [Lit (choice [''low'', ''medium'', ''high''] (draw rnd 2))])]"

definition update_task :: "nat \<Rightarrow> rand \<Rightarrow> call_result \<Rightarrow> world \<Rightarrow> unit outcome \<times> world" where
  "update_task self rnd res w =
     (if TaskAPIUser_task_ids w = [] then (Return (), w)
      else
        (let task_id = choice (TaskAPIUser_task_ids w) (draw rnd 0);
             w1 = emit (Call self \<lparr>req_method = PUT, req_path = [Lit ''/updateTask/'', Fmt task_id],
                                   req_name = ''/updateTask/[id]'', req_params = [],
                                   req_json = Some (update_data rnd)\<rparr>) w
         in case res of
              Raised e \<Rightarrow> (Raise e, w1)
            | Returned r \<Rightarrow>
                if status_code r = 200 then (Return (), emit (Success self) w1)
                else if status_code r = 404 then
                  (case remove_if_in task_id w1 of
                     (Raise e, w2) \<Rightarrow> (Raise e, w2)
                   | (Return u, w2) \<Rightarrow> (Return (), emit (Success self) w2))
                else (Return (),
                      emit (Failure self [Lit ''Failed to update task: '', FmtInt (status_code r)]) w1)))"

text \<open>\<^verbatim>\<open>delete_task\<close>\<close>

definition delete_task :: "nat \<Rightarrow> rand \<Rightarrow> call_result \<Rightarrow> world \<Rightarrow> unit outcome \<times> world" where
  "delete_task self rnd res w =
     (if TaskAPIUser_task_ids w = [] then (Return (), w)
      else
        (let task_id = choice (TaskAPIUser_task_ids w) (draw rnd 0);
             w1 = emit (Call self \<lparr>req_method = DELETE, req_path = [Lit ''/deleteTask/'', Fmt task_id],
                                   req_name = ''/deleteTask/[id]'', req_params = [],
                                   req_json = None\<rparr>) w
         in case res of
              Raised e \<Rightarrow> (Raise e, w1)
            | Returned r \<Rightarrow>
                if status_code r = 200 then
                  (case remove_if_in task_id w1 of
                     (Raise e, w2) \<Rightarrow> (Raise e, w2)
                   | (Return u, w2) \<Rightarrow> (Return (), emit (Success self) w2))
                else if status_code r = 404 then
                  (case remove_if_in task_id w1 of
                     (Raise e, w2) \<Rightarrow> (Raise e, w2)
                   | (Return u, w2) \<Rightarrow> (Return (), emit (Success self) w2))
                else (Return (),
                      emit (Failure self [Lit ''Failed to delete task: '', FmtInt (status_code r)]) w1)))"

section \<open>The other user classes\<close>

text \<open>
  \<^verbatim>\<open>AdminUser.admin_create_task\<close>: the response is not marked, the identifier goes to
  the list of \<^verbatim>\<open>AdminUser\<close>.
\<close>

definition admin_task_data :: "rand \<Rightarrow> (string \<times> fstring) list" where
  "admin_task_data rnd =
     [(''title'', [Lit ''Admin Task '', Lit (take 8 (uuid_hex rnd))]),
      (''description'', [Lit ''Administrative task creation'']),
      (''priority'', [Lit ''high''])]"

definition admin_create_task :: "nat \<Rightarrow> rand \<Rightarrow> call_result \<Rightarrow> world \<Rightarrow> unit outcome \<times> world" where
  "admin_create_task self rnd res w =
     (let w1 = emit (Call self \<lparr>req_method = POST, req_path = [Lit ''/addTask''],
                               req_name = ''/addTask-admin'', req_params = [],
                               req_json = Some (admin_task_data rnd)\<rparr>) w
      in case res of
           Raised e \<Rightarrow> (Raise e, w1)
         | Returned r \<Rightarrow>
             if status_code r = 201 then
               (case response_json r of
                  Raise e \<Rightarrow> (Raise e, w1)
                | Return data \<Rightarrow>
                    (case get_task_id data of
                       Raise e \<Rightarrow> (Raise e, w1)
                     | Return task_id \<Rightarrow>
                         if py_truthy task_id
                         then (Return (), w1\<lparr>AdminUser_task_ids := AdminUser_task_ids w1 @ [task_id]\<rparr>)
                         else (Return (), w1)))
             else (Return (), w1))"

text \<open>
  \<^verbatim>\<open>DatabaseStressUser.batch_create_operations\<close>: \<^verbatim>\<open>randint(5, 10)\<close> posts in a row;
  the responses are dropped. \<open>rnds i\<close> and \<open>env i\<close> are the draws and the call result of
  round \<open>i\<close>.
\<close>

definition batch_task_data :: "nat \<Rightarrow> rand \<Rightarrow> (string \<times> fstring) list" where
  "batch_task_data i rnd =
     [(''title'', [Lit ''Batch Task '', FmtInt (int i), Lit ''-'', Lit (take 6 (uuid_hex rnd))]),
      (''description'', [Lit ''Batch creation test task #'', FmtInt (int i)]),
      (''priority'', [Lit (choice [''low'', ''medium'', ''high''] (draw rnd 0))])]"

fun batch_loop :: "nat \<Rightarrow> (nat \<Rightarrow> rand) \<Rightarrow> (nat \<Rightarrow> call_result) \<Rightarrow> nat list \<Rightarrow> world \<Rightarrow> unit outcome \<times> world" where
  "batch_loop self rnds env [] w = (Return (), w)"
| "batch_loop self rnds env (i # rest) w =
     (let w1 = emit (Call self \<lparr>req_method = POST, req_path = [Lit ''/addTask''],
                               req_name = ''/addTask-batch'', req_params = [],
                               req_json = Some (batch_task_data i (rnds i))\<rparr>) w
      in case env i of
           Raised e \<Rightarrow> (Raise e, w1)
         | Returned r \<Rightarrow> batch_loop self rnds env rest w1)"

definition batch_create_operations :: "nat \<Rightarrow> nat \<Rightarrow> (nat \<Rightarrow> rand) \<Rightarrow> (nat \<Rightarrow> call_result) \<Rightarrow> world \<Rightarrow> unit outcome \<times> world" where
  "batch_create_operations self r rnds env w =
     batch_loop self rnds env [0 ..< nat (randint 5 10 r)] w"

text \<open>
  The runtime stops a user by calling its \<^verbatim>\<open>on_stop\<close>. Only \<^verbatim>\<open>TaskAPIUser\<close> defines
  the hook; the three other classes have none of their own, and the hook they inherit
  from the framework's user class has an empty body.
\<close>

definition stop_user :: "user \<Rightarrow> (nat \<Rightarrow> call_result) \<Rightarrow> world \<Rightarrow> unit outcome \<times> world" where
  "stop_user u env w =
     (case user_class u of
        TaskAPIUser \<Rightarrow> on_stop (user_id u) env w
      | _ \<Rightarrow> (Return (), w))"

section \<open>Run configuration\<close>

text \<open>
  \<^verbatim>\<open>int(s)\<close> on ASCII text: blanks around, a sign, decimal digits, single underscores
  between digits; anything else raises ValueError.
\<close>

definition digit_of :: "char \<Rightarrow> nat option" where
  "digit_of c = (let n = (of_char c :: nat) in if 48 \<le> n \<and> n \<le> 57 then Some (n - 48) else None)"

definition is_space :: "char \<Rightarrow> bool" where
  "is_space c = (let n = (of_char c :: nat) in n = 32 \<or> (9 \<le> n \<and> n \<le> 13) \<or> (28 \<le> n \<and> n \<le> 31))"

definition strip :: "string \<Rightarrow> string" where
  "strip s = rev (dropWhile is_space (rev (dropWhile is_space s)))"

fun int_digits :: "nat \<Rightarrow> string \<Rightarrow> nat option" where
  "int_digits acc [] = Some acc"
| "int_digits acc [c] = map_option (\<lambda>d. 10 * acc + d) (digit_of c)"
| "int_digits acc (c # d # cs) =
     (if c = CHR ''_'' then
        (case digit_of d of None \<Rightarrow> None | Some v \<Rightarrow> int_digits (10 * acc + v) cs)
      else
        (case digit_of c of None \<Rightarrow> None | Some v \<Rightarrow> int_digits (10 * acc + v) (d # cs)))"

definition unsigned_int :: "string \<Rightarrow> nat option" where
  "unsigned_int s =
     (case s of
        [] \<Rightarrow> None
      | c # cs \<Rightarrow> (case digit_of c of None \<Rightarrow> None | Some v \<Rightarrow> int_digits v cs))"

definition py_int :: "string \<Rightarrow> int outcome" where
  "py_int s =
     (let t = strip s;
          (neg, body) = (case t of
                           c # cs \<Rightarrow> if c = CHR ''-'' then (True, cs)
                                     else if c = CHR ''+'' then (False, cs) else (False, t)
                         | [] \<Rightarrow> (False, t))
      in case unsigned_int body of
           None \<Rightarrow> Raise ValueError
         | Some n \<Rightarrow> Return (if neg then - int n else int n))"

text \<open>\<^verbatim>\<open>s.lower()\<close> on ASCII text.\<close>

definition lower_char :: "char \<Rightarrow> char" where
  "lower_char c = (let n = (of_char c :: nat) in if 65 \<le> n \<and> n \<le> 90 then char_of (n + 32) else c)"

definition lower :: "string \<Rightarrow> string" where
  "lower s = map lower_char s"

text \<open>\<^verbatim>\<open>os.getenv(name, default)\<close> on the environment, a map from names to values.\<close>

definition getenv :: "(string \<rightharpoonup> string) \<Rightarrow> string \<Rightarrow> string \<Rightarrow> string" where
  "getenv environ name dflt = (case environ name of None \<Rightarrow> dflt | Some v \<Rightarrow> v)"

record config =
  host :: string
  users :: int
  spawn_rate :: int
  run_time :: string
  headless :: bool

definition config :: "(string \<rightharpoonup> string) \<Rightarrow> config outcome" where
  "config environ =
     (case py_int (getenv environ ''LOCUST_USERS'' ''10'') of
        Raise e \<Rightarrow> Raise e
      | Return n_users \<Rightarrow>
          (case py_int (getenv environ ''LOCUST_SPAWN_RATE'' ''2'') of
             Raise e \<Rightarrow> Raise e
           | Return rate \<Rightarrow>
               Return \<lparr>host = getenv environ ''LOCUST_HOST'' ''http://localhost:3000'',
                       users = n_users,
                       spawn_rate = rate,
                       run_time = getenv environ ''LOCUST_RUN_TIME'' ''5m'',
                       headless = (lower (getenv environ ''LOCUST_HEADLESS'' ''false'') = ''true'')\<rparr>))"

section \<open>Observations on the log\<close>

fun is_call :: "event \<Rightarrow> bool" where
  "is_call (Call u r) = True"
| "is_call e = False"

fun is_mark :: "event \<Rightarrow> bool" where
  "is_mark (Success u) = True"
| "is_mark (Failure u m) = True"
| "is_mark e = False"

section \<open>Inputs of the examples\<close>

definition fresh_world :: world where
  "fresh_world = \<lparr>TaskAPIUser_task_ids = [], AdminUser_task_ids = [], log = []\<rparr>"

definition rnd0 :: rand where
  "rnd0 = \<lparr>uuid_hex = ''0123456789abcdef0123456789abcdef'', draw = (\<lambda>k. 0)\<rparr>"

text \<open>A 201 response whose body is \<^verbatim>\<open>{"task": {"id": t}}\<close>.\<close>

definition created :: "string \<Rightarrow> response" where
  "created t = \<lparr>status_code = 201, resp_text = [],
                json_body = Some (JObj [(''task'', JObj [(''id'', JStr t)])])\<rparr>"

text \<open>A response with status \<open>n\<close> whose body is not JSON.\<close>

definition plain :: "int \<Rightarrow> response" where
  "plain n = \<lparr>status_code = n, resp_text = [], json_body = None\<rparr>"

text \<open>Three tracked identifiers; the second delete call of a cleanup raises.\<close>

definition three_ids_world :: world where
  "three_ids_world =
     \<lparr>TaskAPIUser_task_ids = [JStr ''a'', JStr ''b'', JStr ''c''], AdminUser_task_ids = [], log = []\<rparr>"

definition second_call_raises :: "nat \<Rightarrow> call_result" where
  "second_call_raises i = (if i = 1 then Raised (RequestException ''timed out'') else Returned (plain 200))"

text \<open>An admin user that has created the task \<open>a1\<close>.\<close>

definition admin_world :: world where
  "admin_world = \<lparr>TaskAPIUser_task_ids = [], AdminUser_task_ids = [JStr ''a1''], log = []\<rparr>"

text \<open>The identifier \<open>t1\<close> tracked already.\<close>

definition t1_world :: world where
  "t1_world = \<lparr>TaskAPIUser_task_ids = [JStr ''t1''], AdminUser_task_ids = [], log = []\<rparr>"

text \<open>The same identifier tracked twice.\<close>

definition twice_world :: world where
  "twice_world = \<lparr>TaskAPIUser_task_ids = [JStr ''t1'', JStr ''t1''], AdminUser_task_ids = [], log = []\<rparr>"

text \<open>A 201 response whose body is \<^verbatim>\<open>{"task": null}\<close>.\<close>

definition null_task :: response where
  "null_task = \<lparr>status_code = 201, resp_text = [], json_body = Some (JObj [(''task'', JNull)])\<rparr>"

section \<open>The cleanup hook\<close>

lemma on_stop_loop_frame:
  "TaskAPIUser_task_ids (snd (on_stop_loop self env i ids w)) = TaskAPIUser_task_ids w \<and>
   AdminUser_task_ids (snd (on_stop_loop self env i ids w)) = AdminUser_task_ids w"
  by (induction ids arbitrary: i w) (simp_all add: emit_def Let_def split: call_result.split)

lemma on_stop_loop_returns: "fst (on_stop_loop self env i ids w) = Return ()"
  by (induction ids arbitrary: i w) (simp_all add: Let_def split: call_result.split)

lemma on_stop_loop_calls:
  "filter is_call (log (snd (on_stop_loop self env i ids w))) =
     filter is_call (log w) @ map (\<lambda>t. Call self (cleanup_request t)) ids"
  by (induction ids arbitrary: i w) (simp_all add: emit_def Let_def split: call_result.split)

lemma on_stop_loop_log_mono: "set (log w) \<subseteq> set (log (snd (on_stop_loop self env i ids w)))"
proof (induction ids arbitrary: i w)
  case Nil
  show ?case by simp
next
  case (Cons t ts)
  show ?case
  proof (cases "env i")
    case (Returned r)
    then show ?thesis
      using Cons [of "emit (Call self (cleanup_request t)) w" "Suc i"]
      by (auto simp: emit_def)
  next
    case (Raised e)
    then show ?thesis
      using Cons [of "emit (Print (cleanup_message t e)) (emit (Call self (cleanup_request t)) w)" "Suc i"]
      by (auto simp: emit_def)
  qed
qed

lemma on_stop_loop_prints:
  "j < length ids \<Longrightarrow> env (i + j) = Raised e \<Longrightarrow>
     Print (cleanup_message (ids ! j) e) \<in> set (log (snd (on_stop_loop self env i ids w)))"
proof (induction ids arbitrary: i j w)
  case Nil
  then show ?case by simp
next
  case (Cons t ts)
  show ?case
  proof (cases j)
    case 0
    with Cons.prems have r: "env i = Raised e" by simp
    have "Print (cleanup_message t e)
            \<in> set (log (emit (Print (cleanup_message t e)) (emit (Call self (cleanup_request t)) w)))"
      by (simp add: emit_def)
    then have "Print (cleanup_message t e)
            \<in> set (log (snd (on_stop_loop self env (Suc i) ts
                 (emit (Print (cleanup_message t e)) (emit (Call self (cleanup_request t)) w)))))"
      using on_stop_loop_log_mono by blast
    then show ?thesis
      using r 0 by (simp add: Let_def)
  next
    case (Suc k)
    with Cons.prems have k: "k < length ts" "env (Suc i + k) = Raised e" by simp_all
    show ?thesis
      using Cons.IH [OF k] Suc by (simp add: Let_def split: call_result.split)
  qed
qed

text \<open>
  C9. The cleanup hook removes nothing from the tracked list: when \<^verbatim>\<open>on_stop\<close> is
  over, the list of \<^verbatim>\<open>TaskAPIUser\<close> is the list the hook began with, whatever the
  delete calls did (returned, with any status, or raised).
\<close>

theorem on_stop_keeps_task_ids:
  "TaskAPIUser_task_ids (snd (on_stop self env w)) = TaskAPIUser_task_ids w"
  by (simp add: on_stop_def on_stop_loop_frame)

text \<open>
  C6. When a \<^verbatim>\<open>TaskAPIUser\<close> stops, the hook returns normally, it has called DELETE
  \<open>/deleteTask/<id>\<close> once for every entry of the tracked list, in the order of the list,
  whatever the other calls did, and every exception of a call has been printed in a line
  that carries the identifier it belongs to and the exception.
\<close>

theorem on_stop_attempts_every_id:
  "fst (on_stop self env w) = Return () \<and>
   filter is_call (log (snd (on_stop self env w))) =
     filter is_call (log w) @
     map (\<lambda>t. Call self \<lparr>req_method = DELETE, req_path = [Lit ''/deleteTask/'', Fmt t],
                           req_name = ''/deleteTask/[id]'', req_params = [], req_json = None\<rparr>)
         (TaskAPIUser_task_ids w) \<and>
   (\<forall>j e. j < length (TaskAPIUser_task_ids w) \<longrightarrow> env j = Raised e \<longrightarrow>
      Print [Lit ''Failed to cleanup task '', Fmt (TaskAPIUser_task_ids w ! j), Lit '': '', FmtExn e]
        \<in> set (log (snd (on_stop self env w))))"
  using on_stop_loop_prints [of _ "TaskAPIUser_task_ids w" env 0 _ self w]
  by (simp add: on_stop_def on_stop_loop_returns on_stop_loop_calls
      cleanup_request_def cleanup_message_def)

theorem on_stop_attempts_every_id_witness:
  "fst (on_stop 0 second_call_raises three_ids_world) = Return () \<and>
   filter is_call (log (snd (on_stop 0 second_call_raises three_ids_world))) =
     [Call 0 \<lparr>req_method = DELETE, req_path = [Lit ''/deleteTask/'', Fmt (JStr ''a'')],
              req_name = ''/deleteTask/[id]'', req_params = [], req_json = None\<rparr>,
      Call 0 \<lparr>req_method = DELETE, req_path = [Lit ''/deleteTask/'', Fmt (JStr ''b'')],
              req_name = ''/deleteTask/[id]'', req_params = [], req_json = None\<rparr>,
      Call 0 \<lparr>req_method = DELETE, req_path = [Lit ''/deleteTask/'', Fmt (JStr ''c'')],
              req_name = ''/deleteTask/[id]'', req_params = [], req_json = None\<rparr>] \<and>
   Print [Lit ''Failed to cleanup task '', Fmt (JStr ''b''), Lit '': '',
          FmtExn (RequestException ''timed out'')]
     \<in> set (log (snd (on_stop 0 second_call_raises three_ids_world)))"
proof -
  note t = on_stop_attempts_every_id [of 0 second_call_raises three_ids_world]
  have ids: "TaskAPIUser_task_ids three_ids_world = [JStr ''a'', JStr ''b'', JStr ''c'']"
    and lg: "log three_ids_world = []"
    by (simp_all add: three_ids_world_def)
  have r: "second_call_raises 1 = Raised (RequestException ''timed out'')"
    by (simp add: second_call_raises_def)
  from t have "(1::nat) < length (TaskAPIUser_task_ids three_ids_world) \<longrightarrow>
      second_call_raises 1 = Raised (RequestException ''timed out'') \<longrightarrow>
      Print [Lit ''Failed to cleanup task '', Fmt (TaskAPIUser_task_ids three_ids_world ! 1), Lit '': '',
             FmtExn (RequestException ''timed out'')]
        \<in> set (log (snd (on_stop 0 second_call_raises three_ids_world)))"
    by blast
  with r have "Print [Lit ''Failed to cleanup task '', Fmt (JStr ''b''), Lit '': '',
                      FmtExn (RequestException ''timed out'')]
        \<in> set (log (snd (on_stop 0 second_call_raises three_ids_world)))"
    by (simp add: ids)
  with t show ?thesis by (simp add: ids lg)
qed

text \<open>
  C2, as the code has it. Stopping a \<^verbatim>\<open>TaskAPIUser\<close> calls DELETE \<open>/deleteTask/<id>\<close>
  once for every entry of its tracked list, in the order of the list. Stopping an
  \<^verbatim>\<open>AdminUser\<close>, the other class that tracks identifiers, does nothing: no call, no
  change of state.
\<close>

theorem stop_user_cleanup:
  "filter is_call (log (snd (stop_user \<lparr>user_id = n, user_class = TaskAPIUser\<rparr> env w))) =
     filter is_call (log w) @
     map (\<lambda>t. Call n \<lparr>req_method = DELETE, req_path = [Lit ''/deleteTask/'', Fmt t],
                        req_name = ''/deleteTask/[id]'', req_params = [], req_json = None\<rparr>)
         (TaskAPIUser_task_ids w) \<and>
   stop_user \<lparr>user_id = n, user_class = AdminUser\<rparr> env w = (Return (), w)"
  by (simp add: stop_user_def on_stop_def on_stop_loop_calls cleanup_request_def)

text \<open>
  C2, as stated, fails for \<^verbatim>\<open>AdminUser\<close>: an admin user that tracks the identifier
  \<open>a1\<close> is stopped, and no delete call is made.
\<close>

theorem stop_admin_user_counterexample:
  "task_ids_of admin_world \<lparr>user_id = 7, user_class = AdminUser\<rparr> = Some [JStr ''a1''] \<and>
   filter is_call (log (snd (stop_user \<lparr>user_id = 7, user_class = AdminUser\<rparr>
                                (\<lambda>i. Returned (plain 200)) admin_world))) = []"
  by (simp add: stop_user_def admin_world_def)

section \<open>Tasks on an empty list\<close>

text \<open>
  C5. With an empty tracked list, \<^verbatim>\<open>update_task\<close> and \<^verbatim>\<open>delete_task\<close> return at
  once: the state after the call is the state before it, so no call of the client is made
  and no success or failure is marked.
\<close>

theorem update_delete_noop_on_empty:
  "TaskAPIUser_task_ids w = [] \<Longrightarrow>
     update_task self rnd res w = (Return (), w) \<and> delete_task self rnd res w = (Return (), w)"
  by (simp add: update_task_def delete_task_def)

theorem update_delete_noop_on_empty_witness:
  "TaskAPIUser_task_ids fresh_world = [] \<and>
   update_task 0 rnd0 (Returned (plain 404)) fresh_world = (Return (), fresh_world) \<and>
   delete_task 0 rnd0 (Returned (plain 404)) fresh_world = (Return (), fresh_world)"
  using update_delete_noop_on_empty [of fresh_world 0 rnd0 "Returned (plain 404)"]
  by (simp add: fresh_world_def)

section \<open>Configuration defaults\<close>

lemma py_int_10: "py_int ''10'' = Return 10"
  by code_simp

lemma py_int_2: "py_int ''2'' = Return 2"
  by code_simp

lemma lower_false: "lower ''false'' = ''false''"
  by code_simp

text \<open>
  C7. When none of the five environment variables is set, the configuration is
  host \<open>http://localhost:3000\<close>, 10 users, spawn rate 2, run time \<open>5m\<close>, not headless.
\<close>

theorem config_defaults:
  assumes "environ ''LOCUST_HOST'' = None" "environ ''LOCUST_USERS'' = None"
    "environ ''LOCUST_SPAWN_RATE'' = None" "environ ''LOCUST_RUN_TIME'' = None"
    "environ ''LOCUST_HEADLESS'' = None"
  shows "config environ = Return \<lparr>host = ''http://localhost:3000'', users = 10, spawn_rate = 2,
                                  run_time = ''5m'', headless = False\<rparr>"
  using assms by (simp add: config_def getenv_def py_int_10 py_int_2 lower_false)

theorem config_defaults_witness:
  "config Map.empty = Return \<lparr>host = ''http://localhost:3000'', users = 10, spawn_rate = 2,
                              run_time = ''5m'', headless = False\<rparr>"
  using config_defaults [of Map.empty] by simp

section \<open>The tracked list\<close>

lemma py_in_last: "py_in x (xs @ [x])"
  by (simp add: py_in_def py_same_def)

lemma py_in_count: "py_in x xs = (0 < py_count x xs)"
  by (induction xs) (simp_all add: py_in_def py_count_def)

lemma py_in_choice: "xs \<noteq> [] \<Longrightarrow> py_in (choice xs r) xs"
proof -
  assume "xs \<noteq> []"
  then have "choice xs r \<in> set xs" by (simp add: choice_def)
  then show ?thesis
    by (auto simp: py_in_def py_same_def list_ex_iff)
qed

lemma py_remove_in:
  "py_in x xs \<Longrightarrow> \<exists>ys. py_remove x xs = Some ys \<and> py_count x ys = py_count x xs - 1
                           \<and> length ys = length xs - 1"
proof (induction xs)
  case Nil
  then show ?case by (simp add: py_in_def)
next
  case (Cons e es)
  show ?case
  proof (cases "py_same e x")
    case True
    then show ?thesis by (simp add: py_count_def)
  next
    case False
    with Cons.prems have "py_in x es" by (simp add: py_in_def)
    from Cons.IH [OF this] obtain ys where
      ys: "py_remove x es = Some ys" "py_count x ys = py_count x es - 1" "length ys = length es - 1"
      by blast
    from \<open>py_in x es\<close> have "es \<noteq> []" by (auto simp: py_in_def)
    with False ys show ?thesis by (simp add: py_count_def)
  qed
qed

lemma py_remove_fresh: "\<not> py_in x xs \<Longrightarrow> py_remove x (xs @ [x]) = Some xs"
  by (induction xs) (simp_all add: py_in_def py_same_def)

lemma remove_if_in_present:
  "py_in t (TaskAPIUser_task_ids w) \<Longrightarrow>
     \<exists>ids. py_remove t (TaskAPIUser_task_ids w) = Some ids \<and>
           remove_if_in t w = (Return (), w\<lparr>TaskAPIUser_task_ids := ids\<rparr>)"
  using py_remove_in [of t "TaskAPIUser_task_ids w"] by (auto simp: remove_if_in_def)

section \<open>Creating tasks\<close>

lemma create_task_tracked:
  assumes "status_code r = 201" "json_body r = Some data" "get_task_id data = Return t" "py_truthy t"
  shows "create_task self rnd (Returned r) w =
           (Return (Some data),
            w\<lparr>TaskAPIUser_task_ids := TaskAPIUser_task_ids w @ [t],
              log := log w @ [Call self \<lparr>req_method = POST, req_path = [Lit ''/addTask''],
                                         req_name = ''/addTask'', req_params = [],
                                         req_json = Some (create_task_data rnd)\<rparr>,
                              Success self]\<rparr>)"
  using assms by (simp add: create_task_def response_json_def emit_def Let_def)

lemma admin_create_task_tracked:
  assumes "status_code r = 201" "json_body r = Some data" "get_task_id data = Return t" "py_truthy t"
  shows "admin_create_task self rnd (Returned r) w =
           (Return (),
            w\<lparr>AdminUser_task_ids := AdminUser_task_ids w @ [t],
              log := log w @ [Call self \<lparr>req_method = POST, req_path = [Lit ''/addTask''],
                                         req_name = ''/addTask-admin'', req_params = [],
                                         req_json = Some (admin_task_data rnd)\<rparr>]\<rparr>)"
  using assms by (simp add: admin_create_task_def response_json_def emit_def Let_def)

lemma batch_loop_frame:
  "TaskAPIUser_task_ids (snd (batch_loop self rnds env is w)) = TaskAPIUser_task_ids w \<and>
   AdminUser_task_ids (snd (batch_loop self rnds env is w)) = AdminUser_task_ids w"
  by (induction "is" arbitrary: w) (simp_all add: emit_def Let_def split: call_result.split)

lemma batch_loop_calls:
  "\<forall>i \<in> set is. \<exists>r. env i = Returned r \<Longrightarrow>
     filter is_call (log (snd (batch_loop self rnds env is w))) =
       filter is_call (log w) @
       map (\<lambda>i. Call self \<lparr>req_method = POST, req_path = [Lit ''/addTask''],
                             req_name = ''/addTask-batch'', req_params = [],
                             req_json = Some (batch_task_data i (rnds i))\<rparr>) is"
  by (induction "is" arbitrary: w) (auto simp: emit_def Let_def)

lemma get_task_id_created: "get_task_id (JObj [(''task'', JObj [(''id'', JStr t)])]) = Return (JStr t)"
  by (simp add: get_task_id_def)

text \<open>
  C1, as the code has it. A create by \<^verbatim>\<open>create_task\<close> or \<^verbatim>\<open>admin_create_task\<close>
  that is answered 201 with a truthy \<^verbatim>\<open>task.id\<close> appends the identifier once to the
  list the issuing user reads as \<^verbatim>\<open>self.task_ids\<close>: it is in that list afterwards,
  with one more occurrence than before, and the list of the other tracking class is as
  before. The creates of \<^verbatim>\<open>batch_create_operations\<close> change neither list.
\<close>

theorem create_tracks_id:
  assumes "status_code r = 201" "json_body r = Some data" "get_task_id data = Return t" "py_truthy t"
  shows "task_ids_of (snd (create_task self rnd (Returned r) w)) \<lparr>user_id = self, user_class = TaskAPIUser\<rparr>
           = Some (TaskAPIUser_task_ids w @ [t]) \<and>
         py_in t (TaskAPIUser_task_ids (snd (create_task self rnd (Returned r) w))) \<and>
         py_count t (TaskAPIUser_task_ids (snd (create_task self rnd (Returned r) w)))
           = py_count t (TaskAPIUser_task_ids w) + 1 \<and>
         AdminUser_task_ids (snd (create_task self rnd (Returned r) w)) = AdminUser_task_ids w \<and>
         task_ids_of (snd (admin_create_task self rnd (Returned r) w)) \<lparr>user_id = self, user_class = AdminUser\<rparr>
           = Some (AdminUser_task_ids w @ [t]) \<and>
         TaskAPIUser_task_ids (snd (admin_create_task self rnd (Returned r) w)) = TaskAPIUser_task_ids w \<and>
         TaskAPIUser_task_ids (snd (batch_create_operations self n rnds env w)) = TaskAPIUser_task_ids w \<and>
         AdminUser_task_ids (snd (batch_create_operations self n rnds env w)) = AdminUser_task_ids w"
  by (simp add: create_task_tracked [OF assms] admin_create_task_tracked [OF assms]
      batch_create_operations_def batch_loop_frame py_in_last py_count_def py_same_def)

theorem create_tracks_id_witness:
  "task_ids_of (snd (create_task 0 rnd0 (Returned (created ''t1'')) fresh_world))
       \<lparr>user_id = 0, user_class = TaskAPIUser\<rparr> = Some [JStr ''t1''] \<and>
   AdminUser_task_ids (snd (create_task 0 rnd0 (Returned (created ''t1'')) fresh_world)) = [] \<and>
   task_ids_of (snd (admin_create_task 0 rnd0 (Returned (created ''t1'')) fresh_world))
       \<lparr>user_id = 0, user_class = AdminUser\<rparr> = Some [JStr ''t1'']"
proof -
  have a: "status_code (created ''t1'') = 201"
    and b: "json_body (created ''t1'') = Some (JObj [(''task'', JObj [(''id'', JStr ''t1'')])])"
    by (simp_all add: created_def)
  have c: "py_truthy (JStr ''t1'')" by simp
  from create_tracks_id [OF a b get_task_id_created c, of 0 rnd0 fresh_world]
  show ?thesis by (simp add: fresh_world_def)
qed

text \<open>
  C1, as stated, fails. User 0 creates the task \<open>t1\<close>, and user 1, another
  \<^verbatim>\<open>TaskAPIUser\<close>, reads \<open>t1\<close> in its \<^verbatim>\<open>self.task_ids\<close>; a second create answered with
  the same identifier makes it appear twice; the five creates of a database-stress user,
  each answered 201 with an identifier, leave both lists empty.
\<close>

theorem create_not_exclusive_counterexample:
  "user_id \<lparr>user_id = 1, user_class = TaskAPIUser\<rparr> \<noteq> (0::nat) \<and>
   task_ids_of (snd (create_task 0 rnd0 (Returned (created ''t1'')) fresh_world))
       \<lparr>user_id = 1, user_class = TaskAPIUser\<rparr> = Some [JStr ''t1''] \<and>
   TaskAPIUser_task_ids
     (snd (create_task 0 rnd0 (Returned (created ''t1''))
        (snd (create_task 0 rnd0 (Returned (created ''t1'')) fresh_world))))
     = [JStr ''t1'', JStr ''t1''] \<and>
   length (filter is_call
     (log (snd (batch_create_operations 2 0 (\<lambda>i. rnd0) (\<lambda>i. Returned (created ''t1'')) fresh_world)))) = 5 \<and>
   TaskAPIUser_task_ids (snd (batch_create_operations 2 0 (\<lambda>i. rnd0) (\<lambda>i. Returned (created ''t1'')) fresh_world)) = [] \<and>
   AdminUser_task_ids (snd (batch_create_operations 2 0 (\<lambda>i. rnd0) (\<lambda>i. Returned (created ''t1'')) fresh_world)) = []"
proof -
  have a: "status_code (created ''t1'') = 201"
    and b: "json_body (created ''t1'') = Some (JObj [(''task'', JObj [(''id'', JStr ''t1'')])])"
    by (simp_all add: created_def)
  have c: "py_truthy (JStr ''t1'')" by simp
  note t = create_task_tracked [OF a b get_task_id_created c]
  have n: "nat (randint 5 10 0) = 5"
    by (simp add: randint_def)
  have "length (filter is_call
     (log (snd (batch_create_operations 2 0 (\<lambda>i. rnd0) (\<lambda>i. Returned (created ''t1'')) fresh_world)))) = 5"
    by (simp add: batch_create_operations_def batch_loop_calls n fresh_world_def)
  then show ?thesis
    by (simp add: t fresh_world_def batch_create_operations_def batch_loop_frame)
qed

lemma get_task_id_raises:
  assumes "(\<forall>kvs. data \<noteq> JObj kvs) \<or>
           (\<exists>kvs v. data = JObj kvs \<and> map_of kvs ''task'' = Some v \<and> (\<forall>tkvs. v \<noteq> JObj tkvs))"
  shows "get_task_id data = Raise AttributeError"
  using assms
proof
  assume "\<forall>kvs. data \<noteq> JObj kvs"
  then show ?thesis by (cases data) (simp_all add: get_task_id_def)
next
  assume "\<exists>kvs v. data = JObj kvs \<and> map_of kvs ''task'' = Some v \<and> (\<forall>tkvs. v \<noteq> JObj tkvs)"
  then obtain kvs v where d: "data = JObj kvs" "map_of kvs ''task'' = Some v" "\<forall>tkvs. v \<noteq> JObj tkvs"
    by blast
  from d(3) have "py_get v ''id'' JNull = Raise AttributeError" by (cases v) simp_all
  with d(1,2) show ?thesis by (simp add: get_task_id_def)
qed

lemma create_task_lookup_raises:
  assumes "status_code r = 201" "json_body r = Some data" "get_task_id data = Raise e"
  shows "create_task self rnd (Returned r) w =
           (Raise e,
            w\<lparr>log := log w @ [Call self \<lparr>req_method = POST, req_path = [Lit ''/addTask''],
                                         req_name = ''/addTask'', req_params = [],
                                         req_json = Some (create_task_data rnd)\<rparr>]\<rparr>)"
  using assms by (simp add: create_task_def response_json_def emit_def Let_def)

lemma create_task_falsy_id:
  assumes "status_code r = 201" "json_body r = Some (JObj kvs)"
    and "map_of kvs ''task'' = None \<or>
         (\<exists>tkvs. map_of kvs ''task'' = Some (JObj tkvs) \<and>
                 (\<forall>v. map_of tkvs ''id'' = Some v \<longrightarrow> \<not> py_truthy v))"
  shows "create_task self rnd (Returned r) w =
           (Return (Some (JObj kvs)),
            w\<lparr>log := log w @ [Call self \<lparr>req_method = POST, req_path = [Lit ''/addTask''],
                                         req_name = ''/addTask'', req_params = [],
                                         req_json = Some (create_task_data rnd)\<rparr>,
                              Success self]\<rparr>)"
proof -
  from assms(3) obtain t where t: "get_task_id (JObj kvs) = Return t" "\<not> py_truthy t"
    by (auto simp: get_task_id_def split: option.split)
  show ?thesis
    using assms(1,2) t by (simp add: create_task_def response_json_def emit_def Let_def)
qed

text \<open>
  C10, as the code has it. When the response has status 201 and its body is a dict whose
  \<^verbatim>\<open>task\<close> is missing, or is a dict whose \<^verbatim>\<open>id\<close> is missing or falsy,
  \<^verbatim>\<open>create_task\<close> marks the response a success and leaves the tracked list as it was.
  When the body is not a dict, or its \<^verbatim>\<open>task\<close> is there and is not a dict, the lookup
  raises AttributeError: the call is all the log gains, nothing is marked, and the state
  is otherwise as before.
\<close>

theorem create_task_without_id:
  assumes "status_code r = 201" "json_body r = Some data"
  shows "((\<exists>kvs. data = JObj kvs \<and>
             (map_of kvs ''task'' = None \<or>
              (\<exists>tkvs. map_of kvs ''task'' = Some (JObj tkvs) \<and>
                      (\<forall>v. map_of tkvs ''id'' = Some v \<longrightarrow> \<not> py_truthy v)))) \<longrightarrow>
          create_task self rnd (Returned r) w =
            (Return (Some data),
             w\<lparr>log := log w @ [Call self \<lparr>req_method = POST, req_path = [Lit ''/addTask''],
                                          req_name = ''/addTask'', req_params = [],
                                          req_json = Some (create_task_data rnd)\<rparr>,
                               Success self]\<rparr>) \<and>
          TaskAPIUser_task_ids (snd (create_task self rnd (Returned r) w)) = TaskAPIUser_task_ids w) \<and>
         (((\<forall>kvs. data \<noteq> JObj kvs) \<or>
           (\<exists>kvs v. data = JObj kvs \<and> map_of kvs ''task'' = Some v \<and> (\<forall>tkvs. v \<noteq> JObj tkvs))) \<longrightarrow>
          create_task self rnd (Returned r) w =
            (Raise AttributeError,
             w\<lparr>log := log w @ [Call self \<lparr>req_method = POST, req_path = [Lit ''/addTask''],
                                          req_name = ''/addTask'', req_params = [],
                                          req_json = Some (create_task_data rnd)\<rparr>]\<rparr>))"
proof (intro conjI impI)
  assume "\<exists>kvs. data = JObj kvs \<and>
             (map_of kvs ''task'' = None \<or>
              (\<exists>tkvs. map_of kvs ''task'' = Some (JObj tkvs) \<and>
                      (\<forall>v. map_of tkvs ''id'' = Some v \<longrightarrow> \<not> py_truthy v)))"
  then obtain kvs where d: "data = JObj kvs"
    and k: "map_of kvs ''task'' = None \<or>
              (\<exists>tkvs. map_of kvs ''task'' = Some (JObj tkvs) \<and>
                      (\<forall>v. map_of tkvs ''id'' = Some v \<longrightarrow> \<not> py_truthy v))"
    by blast
  from assms(2) d have b: "json_body r = Some (JObj kvs)" by simp
  note c = create_task_falsy_id [OF assms(1) b k, of self rnd w]
  from c d show "create_task self rnd (Returned r) w =
            (Return (Some data),
             w\<lparr>log := log w @ [Call self \<lparr>req_method = POST, req_path = [Lit ''/addTask''],
                                          req_name = ''/addTask'', req_params = [],
                                          req_json = Some (create_task_data rnd)\<rparr>,
                               Success self]\<rparr>)"
    by simp
  from c show "TaskAPIUser_task_ids (snd (create_task self rnd (Returned r) w)) = TaskAPIUser_task_ids w"
    by simp
next
  assume "(\<forall>kvs. data \<noteq> JObj kvs) \<or>
           (\<exists>kvs v. data = JObj kvs \<and> map_of kvs ''task'' = Some v \<and> (\<forall>tkvs. v \<noteq> JObj tkvs))"
  then have "get_task_id data = Raise AttributeError" by (rule get_task_id_raises)
  with assms show "create_task self rnd (Returned r) w =
            (Raise AttributeError,
             w\<lparr>log := log w @ [Call self \<lparr>req_method = POST, req_path = [Lit ''/addTask''],
                                          req_name = ''/addTask'', req_params = [],
                                          req_json = Some (create_task_data rnd)\<rparr>]\<rparr>)"
    by (rule create_task_lookup_raises)
qed

theorem create_task_without_id_witness:
  "create_task 0 rnd0 (Returned \<lparr>status_code = 201, resp_text = [],
                                 json_body = Some (JObj [(''task'', JObj [(''id'', JStr [])])])\<rparr>) fresh_world =
     (Return (Some (JObj [(''task'', JObj [(''id'', JStr [])])])),
      fresh_world\<lparr>log := [Call 0 \<lparr>req_method = POST, req_path = [Lit ''/addTask''],
                                    req_name = ''/addTask'', req_params = [],
                                    req_json = Some (create_task_data rnd0)\<rparr>,
                            Success 0]\<rparr>) \<and>
   TaskAPIUser_task_ids (snd (create_task 0 rnd0 (Returned \<lparr>status_code = 201, resp_text = [],
                                 json_body = Some (JObj [(''task'', JObj [(''id'', JStr [])])])\<rparr>) fresh_world)) = [] \<and>
   create_task 0 rnd0 (Returned \<lparr>status_code = 201, resp_text = [],
                                 json_body = Some (JObj [(''task'', JStr ''gone'')])\<rparr>) fresh_world =
     (Raise AttributeError,
      fresh_world\<lparr>log := [Call 0 \<lparr>req_method = POST, req_path = [Lit ''/addTask''],
                                    req_name = ''/addTask'', req_params = [],
                                    req_json = Some (create_task_data rnd0)\<rparr>]\<rparr>) \<and>
   create_task 0 rnd0 (Returned \<lparr>status_code = 201, resp_text = [],
                                 json_body = Some (JArr [])\<rparr>) fresh_world =
     (Raise AttributeError,
      fresh_world\<lparr>log := [Call 0 \<lparr>req_method = POST, req_path = [Lit ''/addTask''],
                                    req_name = ''/addTask'', req_params = [],
                                    req_json = Some (create_task_data rnd0)\<rparr>]\<rparr>)"
proof -
  let ?r = "\<lparr>status_code = 201, resp_text = [],
             json_body = Some (JObj [(''task'', JObj [(''id'', JStr [])])])\<rparr>"
  let ?s = "\<lparr>status_code = 201, resp_text = [], json_body = Some (JObj [(''task'', JStr ''gone'')])\<rparr>"
  let ?a = "\<lparr>status_code = 201, resp_text = [], json_body = Some (JArr [])\<rparr>"
  have r: "status_code ?r = 201" "json_body ?r = Some (JObj [(''task'', JObj [(''id'', JStr [])])])"
    and s: "status_code ?s = 201" "json_body ?s = Some (JObj [(''task'', JStr ''gone'')])"
    and a: "status_code ?a = 201" "json_body ?a = Some (JArr [])"
    by simp_all
  from create_task_without_id [OF r, of 0 rnd0 fresh_world]
       create_task_without_id [OF s, of 0 rnd0 fresh_world]
       create_task_without_id [OF a, of 0 rnd0 fresh_world]
  show ?thesis by (simp add: fresh_world_def)
qed

text \<open>
  C10, as stated, fails on the 201 response with body \<^verbatim>\<open>{"task": null}\<close>, which has no
  truthy \<^verbatim>\<open>task.id\<close>: \<^verbatim>\<open>.get("id")\<close> on \<^verbatim>\<open>None\<close> raises AttributeError before
  \<^verbatim>\<open>response.success()\<close>, and nothing is marked.
\<close>

theorem create_task_null_task_counterexample:
  "status_code null_task = 201 \<and> json_body null_task = Some (JObj [(''task'', JNull)]) \<and>
   fst (create_task 0 rnd0 (Returned null_task) fresh_world) = Raise AttributeError \<and>
   filter is_mark (log (snd (create_task 0 rnd0 (Returned null_task) fresh_world))) = []"
  by (simp add: create_task_def response_json_def null_task_def fresh_world_def emit_def Let_def
      get_task_id_def)

section \<open>Updating and deleting tasks\<close>

lemma update_task_404:
  assumes "TaskAPIUser_task_ids w \<noteq> []" "status_code r = 404"
  shows "\<exists>ids. py_remove (choice (TaskAPIUser_task_ids w) (draw rnd 0)) (TaskAPIUser_task_ids w) = Some ids \<and>
           update_task self rnd (Returned r) w =
             (Return (),
              w\<lparr>TaskAPIUser_task_ids := ids,
                log := log w @ [Call self \<lparr>req_method = PUT,
                                           req_path = [Lit ''/updateTask/'', Fmt (choice (TaskAPIUser_task_ids w) (draw rnd 0))],
                                           req_name = ''/updateTask/[id]'', req_params = [],
                                           req_json = Some (update_data rnd)\<rparr>,
                                Success self]\<rparr>)"
proof -
  let ?t = "choice (TaskAPIUser_task_ids w) (draw rnd 0)"
  let ?c = "Call self \<lparr>req_method = PUT, req_path = [Lit ''/updateTask/'', Fmt ?t],
                       req_name = ''/updateTask/[id]'', req_params = [],
                       req_json = Some (update_data rnd)\<rparr>"
  have "py_in ?t (TaskAPIUser_task_ids (emit ?c w))"
    using assms(1) by (simp add: emit_def py_in_choice)
  from remove_if_in_present [OF this] obtain ids where
    ids: "py_remove ?t (TaskAPIUser_task_ids w) = Some ids"
         "remove_if_in ?t (emit ?c w) = (Return (), (emit ?c w)\<lparr>TaskAPIUser_task_ids := ids\<rparr>)"
    by (auto simp: emit_def)
  show ?thesis
    using assms ids by (auto simp: update_task_def Let_def emit_def)
qed

lemma delete_task_prunes:
  assumes "TaskAPIUser_task_ids w \<noteq> []" "status_code r = 200 \<or> status_code r = 404"
  shows "\<exists>ids. py_remove (choice (TaskAPIUser_task_ids w) (draw rnd 0)) (TaskAPIUser_task_ids w) = Some ids \<and>
           delete_task self rnd (Returned r) w =
             (Return (),
              w\<lparr>TaskAPIUser_task_ids := ids,
                log := log w @ [Call self \<lparr>req_method = DELETE,
                                           req_path = [Lit ''/deleteTask/'', Fmt (choice (TaskAPIUser_task_ids w) (draw rnd 0))],
                                           req_name = ''/deleteTask/[id]'', req_params = [], req_json = None\<rparr>,
                                Success self]\<rparr>)"
proof -
  let ?t = "choice (TaskAPIUser_task_ids w) (draw rnd 0)"
  let ?c = "Call self \<lparr>req_method = DELETE, req_path = [Lit ''/deleteTask/'', Fmt ?t],
                       req_name = ''/deleteTask/[id]'', req_params = [], req_json = None\<rparr>"
  have "py_in ?t (TaskAPIUser_task_ids (emit ?c w))"
    using assms(1) by (simp add: emit_def py_in_choice)
  from remove_if_in_present [OF this] obtain ids where
    ids: "py_remove ?t (TaskAPIUser_task_ids w) = Some ids"
         "remove_if_in ?t (emit ?c w) = (Return (), (emit ?c w)\<lparr>TaskAPIUser_task_ids := ids\<rparr>)"
    by (auto simp: emit_def)
  show ?thesis
    using assms ids by (auto simp: delete_task_def Let_def emit_def)
qed

text \<open>
  C3, as the code has it. A user creates a task and is answered 201 with the identifier
  \<open>t1\<close>; \<^verbatim>\<open>update_task\<close> then picks \<open>t1\<close> and is answered 404. The handler removes
  the first entry of the tracked list that equals \<open>t1\<close>, which leaves as many entries
  equal to \<open>t1\<close> as before the create, and the update is marked a success, not a failure.
  When \<open>t1\<close> was not tracked before the create, it is no longer in the list afterwards,
  and the list is the list before the create.
\<close>

theorem create_then_update_404:
  assumes "status_code r1 = 201" "json_body r1 = Some data"
    and "get_task_id data = Return (JStr ''t1'')"
    and "w1 = snd (create_task self rnd1 (Returned r1) w)"
    and "choice (TaskAPIUser_task_ids w1) (draw rnd2 0) = JStr ''t1''"
    and "status_code r2 = 404"
    and "w2 = snd (update_task self rnd2 (Returned r2) w1)"
  shows "py_in (JStr ''t1'') (TaskAPIUser_task_ids w1) \<and>
         fst (update_task self rnd2 (Returned r2) w1) = Return () \<and>
         py_remove (JStr ''t1'') (TaskAPIUser_task_ids w1) = Some (TaskAPIUser_task_ids w2) \<and>
         py_count (JStr ''t1'') (TaskAPIUser_task_ids w2) = py_count (JStr ''t1'') (TaskAPIUser_task_ids w) \<and>
         log w2 = log w1 @ [Call self \<lparr>req_method = PUT,
                                         req_path = [Lit ''/updateTask/'', Fmt (JStr ''t1'')],
                                         req_name = ''/updateTask/[id]'', req_params = [],
                                         req_json = Some (update_data rnd2)\<rparr>,
                            Success self] \<and>
         (\<not> py_in (JStr ''t1'') (TaskAPIUser_task_ids w) \<longrightarrow>
            \<not> py_in (JStr ''t1'') (TaskAPIUser_task_ids w2) \<and>
            TaskAPIUser_task_ids w2 = TaskAPIUser_task_ids w)"
proof -
  have t: "py_truthy (JStr ''t1'')" by simp
  have ids1: "TaskAPIUser_task_ids w1 = TaskAPIUser_task_ids w @ [JStr ''t1'']"
    using create_task_tracked [OF assms(1,2,3) t, of self rnd1 w] assms(4) by simp
  then have ne: "TaskAPIUser_task_ids w1 \<noteq> []" by simp
  have in1: "py_in (JStr ''t1'') (TaskAPIUser_task_ids w1)"
    by (simp add: ids1 py_in_last)
  from update_task_404 [OF ne assms(6), of rnd2 self] obtain ids where
    r: "py_remove (JStr ''t1'') (TaskAPIUser_task_ids w1) = Some ids"
    and u: "update_task self rnd2 (Returned r2) w1 =
             (Return (),
              w1\<lparr>TaskAPIUser_task_ids := ids,
                 log := log w1 @ [Call self \<lparr>req_method = PUT,
                                           req_path = [Lit ''/updateTask/'', Fmt (JStr ''t1'')],
                                           req_name = ''/updateTask/[id]'', req_params = [],
                                           req_json = Some (update_data rnd2)\<rparr>,
                                Success self]\<rparr>)"
    unfolding assms(5) by blast
  from u assms(7) have ids2: "TaskAPIUser_task_ids w2 = ids"
    and lg2: "log w2 = log w1 @ [Call self \<lparr>req_method = PUT,
                                           req_path = [Lit ''/updateTask/'', Fmt (JStr ''t1'')],
                                           req_name = ''/updateTask/[id]'', req_params = [],
                                           req_json = Some (update_data rnd2)\<rparr>,
                                Success self]"
    by simp_all
  from py_remove_in [OF in1] r
  have "py_count (JStr ''t1'') ids = py_count (JStr ''t1'') (TaskAPIUser_task_ids w1) - 1"
    by auto
  then have cnt: "py_count (JStr ''t1'') ids = py_count (JStr ''t1'') (TaskAPIUser_task_ids w)"
    by (simp add: ids1 py_count_def py_same_def)
  have fresh: "\<not> py_in (JStr ''t1'') (TaskAPIUser_task_ids w) \<longrightarrow>
                 \<not> py_in (JStr ''t1'') ids \<and> ids = TaskAPIUser_task_ids w"
  proof
    assume f: "\<not> py_in (JStr ''t1'') (TaskAPIUser_task_ids w)"
    from r py_remove_fresh [OF f] have "ids = TaskAPIUser_task_ids w" by (simp add: ids1)
    with f show "\<not> py_in (JStr ''t1'') ids \<and> ids = TaskAPIUser_task_ids w" by simp
  qed
  from in1 u r cnt lg2 fresh show ?thesis by (simp add: ids2)
qed

theorem create_then_update_404_witness:
  "status_code (created ''t1'') = 201 \<and> status_code (plain 404) = 404 \<and>
   \<not> py_in (JStr ''t1'') (TaskAPIUser_task_ids fresh_world) \<and>
   py_in (JStr ''t1'') (TaskAPIUser_task_ids (snd (create_task 0 rnd0 (Returned (created ''t1'')) fresh_world))) \<and>
   \<not> py_in (JStr ''t1'') (TaskAPIUser_task_ids
        (snd (update_task 0 rnd0 (Returned (plain 404))
           (snd (create_task 0 rnd0 (Returned (created ''t1'')) fresh_world))))) \<and>
   filter is_mark (log (snd (update_task 0 rnd0 (Returned (plain 404))
           (snd (create_task 0 rnd0 (Returned (created ''t1'')) fresh_world))))) = [Success 0, Success 0]"
proof -
  have a: "status_code (created ''t1'') = 201"
    and b: "json_body (created ''t1'') = Some (JObj [(''task'', JObj [(''id'', JStr ''t1'')])])"
    and c: "status_code (plain 404) = 404"
    by (simp_all add: created_def plain_def)
  have f: "\<not> py_in (JStr ''t1'') (TaskAPIUser_task_ids fresh_world)"
    by (simp add: fresh_world_def py_in_def)
  have t: "py_truthy (JStr ''t1'')" by simp
  note cr = create_task_tracked [OF a b get_task_id_created t, of 0 rnd0 fresh_world]
  have ids1: "TaskAPIUser_task_ids (snd (create_task 0 rnd0 (Returned (created ''t1'')) fresh_world))
                = [JStr ''t1'']"
    unfolding cr by (simp add: fresh_world_def)
  have lg1: "filter is_mark (log (snd (create_task 0 rnd0 (Returned (created ''t1'')) fresh_world)))
                = [Success 0]"
    unfolding cr by (simp add: fresh_world_def)
  have ch: "choice (TaskAPIUser_task_ids (snd (create_task 0 rnd0 (Returned (created ''t1'')) fresh_world)))
              (draw rnd0 0) = JStr ''t1''"
    by (simp add: ids1 choice_def)
  from create_then_update_404 [OF a b get_task_id_created refl ch c refl]
  show ?thesis using a c f lg1 by simp
qed

text \<open>
  C3, as stated, fails when \<open>t1\<close> is tracked already: the create answered 201 with \<open>t1\<close>
  makes it a second entry, \<^verbatim>\<open>update_task\<close> picks \<open>t1\<close> and is answered 404, and
  \<open>t1\<close> is still in the tracked list after the handler.
\<close>

theorem create_then_update_404_tracked_counterexample:
  "status_code (created ''t1'') = 201 \<and> status_code (plain 404) = 404 \<and>
   TaskAPIUser_task_ids t1_world = [JStr ''t1''] \<and>
   choice (TaskAPIUser_task_ids (snd (create_task 0 rnd0 (Returned (created ''t1'')) t1_world)))
     (draw rnd0 0) = JStr ''t1'' \<and>
   TaskAPIUser_task_ids
     (snd (update_task 0 rnd0 (Returned (plain 404))
        (snd (create_task 0 rnd0 (Returned (created ''t1'')) t1_world)))) = [JStr ''t1''] \<and>
   py_in (JStr ''t1'') (TaskAPIUser_task_ids
     (snd (update_task 0 rnd0 (Returned (plain 404))
        (snd (create_task 0 rnd0 (Returned (created ''t1'')) t1_world)))))"
proof -
  have a: "status_code (created ''t1'') = 201"
    and b: "json_body (created ''t1'') = Some (JObj [(''task'', JObj [(''id'', JStr ''t1'')])])"
    and c: "status_code (plain 404) = 404"
    by (simp_all add: created_def plain_def)
  have t: "py_truthy (JStr ''t1'')" by simp
  note cr = create_task_tracked [OF a b get_task_id_created t, of 0 rnd0 t1_world]
  show ?thesis
    unfolding cr
    by (simp add: a c t1_world_def update_task_def remove_if_in_def py_in_def py_same_def
        choice_def rnd0_def plain_def emit_def Let_def)
qed

text \<open>
  C4, as the code has it. When \<^verbatim>\<open>delete_task\<close> is answered 200 or 404, the handler
  removes the first entry of the tracked list that equals the chosen identifier and marks
  a success: the identifier has one occurrence less, and it is absent afterwards when it
  occurred once.
\<close>

theorem delete_task_prunes_one:
  assumes "TaskAPIUser_task_ids w \<noteq> []" "status_code r = 200 \<or> status_code r = 404"
    and "t = choice (TaskAPIUser_task_ids w) (draw rnd 0)"
    and "w' = snd (delete_task self rnd (Returned r) w)"
  shows "fst (delete_task self rnd (Returned r) w) = Return () \<and>
         py_remove t (TaskAPIUser_task_ids w) = Some (TaskAPIUser_task_ids w') \<and>
         py_count t (TaskAPIUser_task_ids w') = py_count t (TaskAPIUser_task_ids w) - 1 \<and>
         (py_count t (TaskAPIUser_task_ids w) = 1 \<longrightarrow> \<not> py_in t (TaskAPIUser_task_ids w')) \<and>
         filter is_mark (log w') = filter is_mark (log w) @ [Success self]"
proof -
  from delete_task_prunes [OF assms(1,2), of rnd self] obtain ids where
    ids: "py_remove t (TaskAPIUser_task_ids w) = Some ids"
    and d: "delete_task self rnd (Returned r) w =
             (Return (),
              w\<lparr>TaskAPIUser_task_ids := ids,
                log := log w @ [Call self \<lparr>req_method = DELETE,
                                           req_path = [Lit ''/deleteTask/'', Fmt t],
                                           req_name = ''/deleteTask/[id]'', req_params = [], req_json = None\<rparr>,
                                Success self]\<rparr>)"
    unfolding assms(3) by blast
  have "py_in t (TaskAPIUser_task_ids w)"
    using assms(1,3) by (simp add: py_in_choice)
  from py_remove_in [OF this] ids
  have c: "py_count t ids = py_count t (TaskAPIUser_task_ids w) - 1" by auto
  show ?thesis
    using ids c d assms(4) by (simp add: py_in_count)
qed

theorem delete_task_prunes_one_witness:
  "TaskAPIUser_task_ids three_ids_world \<noteq> [] \<and> status_code (plain 404) = 404 \<and>
   fst (delete_task 0 rnd0 (Returned (plain 404)) three_ids_world) = Return () \<and>
   TaskAPIUser_task_ids (snd (delete_task 0 rnd0 (Returned (plain 404)) three_ids_world))
     = [JStr ''b'', JStr ''c''] \<and>
   \<not> py_in (JStr ''a'') (TaskAPIUser_task_ids (snd (delete_task 0 rnd0 (Returned (plain 404)) three_ids_world)))"
proof -
  have a: "TaskAPIUser_task_ids three_ids_world \<noteq> []"
    and b: "status_code (plain 404) = 200 \<or> status_code (plain 404) = 404"
    and c: "JStr ''a'' = choice (TaskAPIUser_task_ids three_ids_world) (draw rnd0 0)"
    by (simp_all add: three_ids_world_def plain_def choice_def rnd0_def)
  have n: "py_count (JStr ''a'') (TaskAPIUser_task_ids three_ids_world) = 1"
    by (simp add: three_ids_world_def py_count_def py_same_def)
  have r: "py_remove (JStr ''a'') (TaskAPIUser_task_ids three_ids_world) = Some [JStr ''b'', JStr ''c'']"
    by (simp add: three_ids_world_def py_same_def)
  from delete_task_prunes_one [OF a b c refl, of 0] n r a show ?thesis
    by (simp add: plain_def)
qed

text \<open>
  C4, as stated for any prior contents of the list, fails when the identifier is tracked
  twice: after a delete answered 200 it is still in the list.
\<close>

theorem delete_task_duplicate_counterexample:
  "status_code (plain 200) = 200 \<and>
   choice (TaskAPIUser_task_ids twice_world) (draw rnd0 0) = JStr ''t1'' \<and>
   TaskAPIUser_task_ids (snd (delete_task 0 rnd0 (Returned (plain 200)) twice_world)) = [JStr ''t1''] \<and>
   py_in (JStr ''t1'') (TaskAPIUser_task_ids (snd (delete_task 0 rnd0 (Returned (plain 200)) twice_world)))"
  by (simp add: delete_task_def twice_world_def plain_def rnd0_def choice_def emit_def Let_def
      remove_if_in_def py_in_def py_same_def)

section \<open>Listing tasks\<close>

lemma randint_bounds: "a \<le> b \<Longrightarrow> a \<le> randint a b r \<and> randint a b r \<le> b"
proof -
  assume ab: "a \<le> b"
  then have "0 < nat (b - a + 1)" by simp
  then have "r mod nat (b - a + 1) < nat (b - a + 1)" by (rule mod_less_divisor)
  then have "int (r mod nat (b - a + 1)) < b - a + 1" using ab by linarith
  then show ?thesis by (simp add: randint_def)
qed

lemma choice_in: "xs \<noteq> [] \<Longrightarrow> choice xs r \<in> set xs"
  by (simp add: choice_def)

lemma list_tasks_params_cases:
  "list_tasks_params rnd =
     (if choice ['''', ''pending'', ''in_progress'', ''completed''] (draw rnd 2) = ''''
      then [(''page'', JInt (randint 1 5 (draw rnd 0))),
            (''limit'', JInt (choice [5, 10, 20] (draw rnd 1)))]
      else [(''page'', JInt (randint 1 5 (draw rnd 0))),
            (''limit'', JInt (choice [5, 10, 20] (draw rnd 1))),
            (''status'', JStr (choice ['''', ''pending'', ''in_progress'', ''completed''] (draw rnd 2)))])"
  by (simp add: list_tasks_params_def Let_def)

lemma list_tasks_params_ranges:
  "\<exists>p l. map_of (list_tasks_params rnd) ''page'' = Some (JInt p) \<and> 1 \<le> p \<and> p \<le> 5 \<and>
         map_of (list_tasks_params rnd) ''limit'' = Some (JInt l) \<and> l \<in> {5, 10, 20} \<and>
         map_of (list_tasks_params rnd) ''status''
           \<in> {None, Some (JStr ''pending''), Some (JStr ''in_progress''), Some (JStr ''completed'')} \<and>
         fst ` set (list_tasks_params rnd) \<subseteq> {''page'', ''limit'', ''status''}"
proof -
  have p: "1 \<le> randint 1 5 (draw rnd 0) \<and> randint 1 5 (draw rnd 0) \<le> 5"
    by (rule randint_bounds) simp
  have l: "choice [5, 10, 20 :: int] (draw rnd 1) \<in> {5, 10, 20}"
    using choice_in [of "[5, 10, 20 :: int]" "draw rnd 1"] by simp
  have s: "choice ['''', ''pending'', ''in_progress'', ''completed''] (draw rnd 2)
             \<in> {'''', ''pending'', ''in_progress'', ''completed''}"
    using choice_in [of "['''', ''pending'', ''in_progress'', ''completed'']" "draw rnd 2"] by simp
  show ?thesis
    using p l s by (auto simp: list_tasks_params_cases)
qed

lemma list_tasks_log:
  "log (snd (list_tasks self rnd (Returned r) w)) =
     log w @ [Call self \<lparr>req_method = GET, req_path = [Lit ''/listTasks''],
                         req_name = ''/listTasks'', req_params = list_tasks_params rnd,
                         req_json = None\<rparr>]
           @ (if status_code r = 200
              then (case json_body r of None \<Rightarrow> [] | Some d \<Rightarrow> [Success self])
              else [Failure self [Lit ''Failed with status '', FmtInt (status_code r)]])"
  by (simp add: list_tasks_def response_json_def emit_def Let_def split: option.split)

text \<open>
  C8, as the code has it. Every \<^verbatim>\<open>list_tasks\<close> calls GET \<open>/listTasks\<close> with a page
  of 1 to 5, a limit of 5, 10 or 20, and a status that is left out or is one of pending,
  in_progress and completed. A response with status 200 whose body decodes is marked a
  success; with status 200 and a body that does not decode nothing is marked; a response
  with any other status is marked a failure.
\<close>

theorem list_tasks_request_and_mark:
  "log (snd (list_tasks self rnd (Returned r) w)) =
     log w @ [Call self \<lparr>req_method = GET, req_path = [Lit ''/listTasks''],
                         req_name = ''/listTasks'', req_params = list_tasks_params rnd,
                         req_json = None\<rparr>]
           @ (if status_code r = 200
              then (case json_body r of None \<Rightarrow> [] | Some d \<Rightarrow> [Success self])
              else [Failure self [Lit ''Failed with status '', FmtInt (status_code r)]]) \<and>
   (\<exists>p l. map_of (list_tasks_params rnd) ''page'' = Some (JInt p) \<and> 1 \<le> p \<and> p \<le> 5 \<and>
         map_of (list_tasks_params rnd) ''limit'' = Some (JInt l) \<and> l \<in> {5, 10, 20} \<and>
         map_of (list_tasks_params rnd) ''status''
           \<in> {None, Some (JStr ''pending''), Some (JStr ''in_progress''), Some (JStr ''completed'')} \<and>
         fst ` set (list_tasks_params rnd) \<subseteq> {''page'', ''limit'', ''status''})"
  by (rule conjI [OF list_tasks_log list_tasks_params_ranges])

theorem list_tasks_request_and_mark_witness:
  "log (snd (list_tasks 0 rnd0 (Returned \<lparr>status_code = 200, resp_text = [], json_body = Some (JArr [])\<rparr>)
                fresh_world)) =
     [Call 0 \<lparr>req_method = GET, req_path = [Lit ''/listTasks''], req_name = ''/listTasks'',
              req_params = [(''page'', JInt 1), (''limit'', JInt 5)], req_json = None\<rparr>,
      Success 0] \<and>
   log (snd (list_tasks 0 rnd0 (Returned (plain 503)) fresh_world)) =
     [Call 0 \<lparr>req_method = GET, req_path = [Lit ''/listTasks''], req_name = ''/listTasks'',
              req_params = [(''page'', JInt 1), (''limit'', JInt 5)], req_json = None\<rparr>,
      Failure 0 [Lit ''Failed with status '', FmtInt 503]]"
proof -
  have p: "list_tasks_params rnd0 = [(''page'', JInt 1), (''limit'', JInt 5)]"
    by (simp add: list_tasks_params_cases rnd0_def randint_def choice_def)
  from list_tasks_request_and_mark
         [of 0 rnd0 "\<lparr>status_code = 200, resp_text = [], json_body = Some (JArr [])\<rparr>" fresh_world]
       list_tasks_request_and_mark [of 0 rnd0 "plain 503" fresh_world]
  show ?thesis by (simp add: p fresh_world_def plain_def)
qed

text \<open>
  C8, as stated, fails on a response with status 200 whose body is not JSON:
  \<^verbatim>\<open>response.json()\<close> raises before \<^verbatim>\<open>response.success()\<close>, and no success is marked.
\<close>

theorem list_tasks_bad_body_counterexample:
  "status_code (plain 200) = 200 \<and>
   fst (list_tasks 0 rnd0 (Returned (plain 200)) fresh_world) = Raise JSONDecodeError \<and>
   filter is_mark (log (snd (list_tasks 0 rnd0 (Returned (plain 200)) fresh_world))) = []"
  by (simp add: list_tasks_def response_json_def plain_def fresh_world_def emit_def Let_def)

end
